theory Spec2Isabelle
  imports Main "HOL-Library.Sublist"
begin

section \<open>Entity kinds, rule objects and syntax trees\<close>

text \<open>
  \<^verbatim>\<open>langops.mts\<close>: the abstract categories of a documentable declaration.
\<close>

datatype EntityKind = KModule | KType | KFunction | KProperty | KVariable

text \<open>
  An \<^verbatim>\<open>SgRule\<close> is a JavaScript object literal: a list of keyed fields. The adapters
  only use the keys \<^verbatim>\<open>kind\<close>, \<^verbatim>\<open>regex\<close>, \<^verbatim>\<open>nthChild\<close>, \<^verbatim>\<open>any\<close>, \<^verbatim>\<open>all\<close>, \<^verbatim>\<open>not\<close>,
  \<^verbatim>\<open>inside\<close>, \<^verbatim>\<open>has\<close>, \<^verbatim>\<open>follows\<close> and \<^verbatim>\<open>stopBy\<close>.
\<close>

datatype stop = Neighbor | End

datatype sgrule = SgRule "sgfield list"
and sgfield =
    Kind string
  | Regex string
  | NthChild nat
  | AnyOf "sgrule list"
  | AllOf "sgrule list"
  | NotR sgrule
  | Inside sgrule
  | Has sgrule
  | Follows sgrule
  | StopBy stop

datatype sgkey =
  K_kind | K_regex | K_nthChild | K_any | K_all | K_not | K_inside | K_has | K_follows | K_stopBy

fun field_key :: "sgfield \<Rightarrow> sgkey" where
  "field_key (Kind _) = K_kind"
| "field_key (Regex _) = K_regex"
| "field_key (NthChild _) = K_nthChild"
| "field_key (AnyOf _) = K_any"
| "field_key (AllOf _) = K_all"
| "field_key (NotR _) = K_not"
| "field_key (Inside _) = K_inside"
| "field_key (Has _) = K_has"
| "field_key (Follows _) = K_follows"
| "field_key (StopBy _) = K_stopBy"

fun rule_fields :: "sgrule \<Rightarrow> sgfield list" where
  "rule_fields (SgRule fs) = fs"

text \<open>
  Object spread \<^verbatim>\<open>{ ...a, ...b }\<close>: the fields of \<open>a\<close> whose key \<open>b\<close> does not define,
  then the fields of \<open>b\<close>.
\<close>

definition spread2 :: "sgrule \<Rightarrow> sgrule \<Rightarrow> sgrule" where
  "spread2 a b =
     SgRule (filter (\<lambda>f. field_key f \<notin> set (map field_key (rule_fields b))) (rule_fields a) @ rule_fields b)"

definition spread :: "sgrule list \<Rightarrow> sgrule" where
  "spread rs = foldl spread2 (SgRule []) rs"

text \<open>\<^verbatim>\<open>[...].filter(Boolean)\<close> on a list of rules and \<^verbatim>\<open>null\<close>s.\<close>

fun filterBoolean :: "'a option list \<Rightarrow> 'a list" where
  "filterBoolean [] = []"
| "filterBoolean (None # xs) = filterBoolean xs"
| "filterBoolean (Some x # xs) = x # filterBoolean xs"

definition includesK :: "EntityKind list \<Rightarrow> EntityKind \<Rightarrow> bool" where
  "includesK ks k = (k \<in> set ks)"

text \<open>
  The syntax tree of the provider: every node has a kind, a text and children. A node
  reference (\<^verbatim>\<open>SgNode\<close>) is a tree together with the path of child indices that leads to
  the node, innermost index first; the root is the empty path.
\<close>

datatype tree = Node (nkind: string) (ntext: string) (nchildren: "tree list")

type_synonym path = "nat list"

fun subtree :: "tree \<Rightarrow> nat list \<Rightarrow> tree option" where
  "subtree t [] = Some t"
| "subtree t (i # is) =
     (if i < length (nchildren t) then subtree (nchildren t ! i) is else None)"

definition node_at :: "tree \<Rightarrow> path \<Rightarrow> tree option" where
  "node_at t p = subtree t (rev p)"

definition kind_at :: "tree \<Rightarrow> path \<Rightarrow> string option" where
  "kind_at t p = map_option nkind (node_at t p)"

definition text_at :: "tree \<Rightarrow> path \<Rightarrow> string option" where
  "text_at t p = map_option ntext (node_at t p)"

text \<open>\<^verbatim>\<open>node.prev()\<close>: the previous sibling under the same parent, or \<^verbatim>\<open>null\<close>.\<close>

fun prev :: "path \<Rightarrow> path option" where
  "prev [] = None"
| "prev (i # ps) = (if i = 0 then None else Some ((i - 1) # ps))"

fun parent :: "path \<Rightarrow> path option" where
  "parent [] = None"
| "parent (i # ps) = Some ps"

fun ancestors :: "path \<Rightarrow> path list" where
  "ancestors [] = []"
| "ancestors (i # ps) = ps # ancestors ps"

fun prev_all :: "path \<Rightarrow> path list" where
  "prev_all [] = []"
| "prev_all (i # ps) = map (\<lambda>j. j # ps) (rev [0..<i])"

definition child_paths :: "tree \<Rightarrow> path \<Rightarrow> path list" where
  "child_paths t p =
     (case node_at t p of None \<Rightarrow> [] | Some n \<Rightarrow> map (\<lambda>i. i # p) [0..<length (nchildren n)])"

text \<open>All nodes below \<open>p\<close> in document order (\<open>p\<close> itself first), to a given depth.\<close>

fun dfs :: "nat \<Rightarrow> tree \<Rightarrow> path \<Rightarrow> path list" where
  "dfs 0 t p = [p]"
| "dfs (Suc d) t p = p # concat (map (dfs d t) (child_paths t p))"

fun height :: "tree \<Rightarrow> nat" where
  "height (Node k x cs) = Suc (fold max (map height cs) 0)"

definition descendants :: "tree \<Rightarrow> path \<Rightarrow> path list" where
  "descendants t p = tl (dfs (height t) t p)"

section \<open>The rule evaluator\<close>

text \<open>
  Modelled from the spec: the rule evaluator is the ast-grep engine behind
  \<^verbatim>\<open>@genaiscript/plugin-ast-grep\<close>, which is not part of the repository. Section 4.1 of
  the specification gives its contract: a pure boolean predicate over nodes; an object
  with several keys is the conjunction of its keys; \<^verbatim>\<open>any\<close> of no rule matches nothing
  and \<^verbatim>\<open>all\<close> of no rule matches everything; \<^verbatim>\<open>inside\<close>, \<^verbatim>\<open>has\<close> and \<^verbatim>\<open>follows\<close> relate
  the node to its enclosing node, its children and its previous siblings, and with
  \<^verbatim>\<open>stopBy: neighbor\<close> (the default) only the immediate one counts; \<^verbatim>\<open>regex\<close> is applied
  to the node's own text. Regular expressions are restricted to what the adapters
  write: an optional leading \<^verbatim>\<open>^\<close>, literal characters and ranges \<^verbatim>\<open>[a-b]\<close>.
\<close>

fun regex_here :: "string \<Rightarrow> string \<Rightarrow> bool" where
  "regex_here [] s = True"
| "regex_here (a # p) [] = False"
| "regex_here (a # p) (c # cs) =
     (if a = CHR ''[''
      then (case p of
              lo # d # hi # cl # p' \<Rightarrow>
                d = CHR ''-'' \<and> cl = CHR '']'' \<and>
                (of_char lo :: nat) \<le> of_char c \<and> (of_char c :: nat) \<le> of_char hi \<and>
                regex_here p' cs
            | _ \<Rightarrow> False)
      else a = c \<and> regex_here p cs)"

definition regex_test :: "string \<Rightarrow> string \<Rightarrow> bool" where
  "regex_test r s =
     (case r of
        [] \<Rightarrow> True
      | c # p \<Rightarrow>
          if c = CHR ''^'' then regex_here p s
          else list_ex (\<lambda>n. regex_here r (drop n s)) [0..<Suc (length s)])"

fun stopBy_of :: "sgfield list \<Rightarrow> stop" where
  "stopBy_of [] = Neighbor"
| "stopBy_of (StopBy s # fs) = s"
| "stopBy_of (f # fs) = stopBy_of fs"

definition inside_cands :: "stop \<Rightarrow> path \<Rightarrow> path list" where
  "inside_cands sb p = (case sb of Neighbor \<Rightarrow> take 1 (ancestors p) | End \<Rightarrow> ancestors p)"

definition follows_cands :: "stop \<Rightarrow> path \<Rightarrow> path list" where
  "follows_cands sb p = (case sb of Neighbor \<Rightarrow> take 1 (prev_all p) | End \<Rightarrow> prev_all p)"

definition has_cands :: "stop \<Rightarrow> tree \<Rightarrow> path \<Rightarrow> path list" where
  "has_cands sb t p = (case sb of Neighbor \<Rightarrow> child_paths t p | End \<Rightarrow> descendants t p)"

fun matches :: "sgrule \<Rightarrow> tree \<Rightarrow> path \<Rightarrow> bool"
  and field_matches :: "sgfield \<Rightarrow> tree \<Rightarrow> path \<Rightarrow> bool" where
  "matches (SgRule fs) t p = (node_at t p \<noteq> None \<and> list_all (\<lambda>f. field_matches f t p) fs)"
| "field_matches (Kind k) t p = (kind_at t p = Some k)"
| "field_matches (Regex r) t p = (case text_at t p of None \<Rightarrow> False | Some s \<Rightarrow> regex_test r s)"
| "field_matches (NthChild n) t p = (case p of [] \<Rightarrow> False | i # _ \<Rightarrow> Suc i = n)"
| "field_matches (AnyOf rs) t p = list_ex (\<lambda>r. matches r t p) rs"
| "field_matches (AllOf rs) t p = list_all (\<lambda>r. matches r t p) rs"
| "field_matches (NotR r) t p = (\<not> matches r t p)"
| "field_matches (Inside r) t p =
     list_ex (\<lambda>q. matches r t q) (inside_cands (stopBy_of (rule_fields r)) p)"
| "field_matches (Has r) t p =
     list_ex (\<lambda>q. matches r t q) (has_cands (stopBy_of (rule_fields r)) t p)"
| "field_matches (Follows r) t p =
     list_ex (\<lambda>q. matches r t q) (follows_cands (stopBy_of (rule_fields r)) p)"
| "field_matches (StopBy s) t p = True"

section \<open>The adapters' matchers\<close>

text \<open>
  Each definition follows \<^verbatim>\<open>getCommentableNodesMatcher\<close> of one adapter, constant by
  constant. A rule object with the single key \<^verbatim>\<open>kind\<close>:
\<close>

definition kindRule :: "string \<Rightarrow> sgrule" where
  "kindRule k = SgRule [Kind k]"

definition pick :: "EntityKind list \<Rightarrow> EntityKind \<Rightarrow> sgrule \<Rightarrow> sgrule option" where
  "pick entityKinds k r = (if includesK entityKinds k then Some r else None)"

text \<open>\<^verbatim>\<open>go.mts\<close>\<close>

definition go_declKindsRaw_any :: "EntityKind list \<Rightarrow> sgrule list" where
  "go_declKindsRaw_any entityKinds = filterBoolean
     [pick entityKinds KFunction (kindRule ''function_declaration''),
      pick entityKinds KFunction (kindRule ''method_declaration''),
      pick entityKinds KType (kindRule ''type_declaration''),
      pick entityKinds KVariable (kindRule ''var_declaration''),
      pick entityKinds KVariable (kindRule ''const_declaration'')]"

definition go_capitalIdentifier :: sgrule where
  "go_capitalIdentifier = SgRule [Kind ''identifier'', Regex ''^[A-Z]'']"

definition go_withDocComment :: sgrule where
  "go_withDocComment = SgRule [Follows (SgRule [Kind ''comment'', Regex ''^//'', StopBy Neighbor])]"

definition go_getCommentableNodesMatcher :: "EntityKind list \<Rightarrow> bool \<Rightarrow> bool \<Rightarrow> sgrule" where
  "go_getCommentableNodesMatcher entityKinds withComments exportsOnly =
     (let declKindsRaw = SgRule [AnyOf (go_declKindsRaw_any entityKinds)];
          declKinds =
            (if exportsOnly
             then SgRule [AnyOf [SgRule [AnyOf (go_declKindsRaw_any entityKinds),
                    Has go_capitalIdentifier]]]
             else SgRule [AnyOf [declKindsRaw]]);
          inside = SgRule [Inside (kindRule ''source_file'')];
          docsRule = (if withComments then go_withDocComment else SgRule [NotR go_withDocComment])
      in spread [declKinds, inside, docsRule])"

text \<open>\<^verbatim>\<open>csharp.mts\<close>\<close>

definition csharp_declKindsRaw_any :: "EntityKind list \<Rightarrow> sgrule list" where
  "csharp_declKindsRaw_any entityKinds = filterBoolean
     [pick entityKinds KModule (kindRule ''namespace_declaration''),
      pick entityKinds KType (kindRule ''delegate_declaration''),
      pick entityKinds KType (kindRule ''struct_declaration''),
      pick entityKinds KType (kindRule ''class_declaration''),
      pick entityKinds KType (kindRule ''interface_declaration''),
      pick entityKinds KType (kindRule ''enum_declaration''),
      pick entityKinds KProperty (kindRule ''field_declaration''),
      pick entityKinds KProperty (kindRule ''event_field_declaration''),
      pick entityKinds KProperty (kindRule ''property_declaration''),
      pick entityKinds KProperty (kindRule ''indexer_declaration''),
      pick entityKinds KProperty (kindRule ''enum_member_declaration''),
      pick entityKinds KFunction (kindRule ''method_declaration''),
      pick entityKinds KFunction (kindRule ''constructor_declaration''),
      pick entityKinds KFunction (kindRule ''operator_declaration'')]"

definition commentBefore :: sgrule where
  "commentBefore = SgRule [Follows (SgRule [Kind ''comment'', StopBy Neighbor])]"

definition csharp_getCommentableNodesMatcher :: "EntityKind list \<Rightarrow> bool \<Rightarrow> bool \<Rightarrow> sgrule" where
  "csharp_getCommentableNodesMatcher entityKinds withComments exportsOnly =
     (let declKindsRaw = SgRule [AnyOf (csharp_declKindsRaw_any entityKinds)];
          declKinds = SgRule [AnyOf [declKindsRaw]];
          inside = SgRule [Inside (SgRule [AllOf []])];
          withDocComment = commentBefore;
          docsRule = (if withComments then withDocComment else SgRule [NotR withDocComment])
      in spread [declKinds, inside, docsRule])"

text \<open>\<^verbatim>\<open>python.mts\<close>: the method has two parameters only.\<close>

definition python_declKinds_any :: "EntityKind list \<Rightarrow> sgrule list" where
  "python_declKinds_any entityKinds = filterBoolean
     [pick entityKinds KFunction (kindRule ''function_definition''),
      pick entityKinds KType (kindRule ''class_definition'')]"

definition python_withDocstring :: sgrule where
  "python_withDocstring =
     SgRule [Has (SgRule [Kind ''block'',
       Has (SgRule [NthChild 1, Kind ''expression_statement'',
         Has (SgRule [NthChild 1, Kind ''string''])])])]"

definition python_getCommentableNodesMatcher :: "EntityKind list \<Rightarrow> bool \<Rightarrow> sgrule" where
  "python_getCommentableNodesMatcher entityKinds withComments =
     (let declKinds = SgRule [AnyOf (python_declKinds_any entityKinds)];
          inside = SgRule [Inside (SgRule [AnyOf [kindRule ''module'', kindRule ''block'']])];
          docsRule = (if withComments then python_withDocstring else SgRule [NotR python_withDocstring])
      in spread [declKinds, inside, docsRule])"

text \<open>
  \<^verbatim>\<open>pythonOps\<close> is used through the \<^verbatim>\<open>LanguageOps\<close> interface, whose matcher takes three
  arguments; JavaScript drops the one the method does not declare.
\<close>

definition pythonOps_getCommentableNodesMatcher :: "EntityKind list \<Rightarrow> bool \<Rightarrow> bool \<Rightarrow> sgrule" where
  "pythonOps_getCommentableNodesMatcher entityKinds withComments exportsOnly =
     python_getCommentableNodesMatcher entityKinds withComments"

text \<open>\<^verbatim>\<open>ruby.mts\<close>: no \<^verbatim>\<open>inside\<close> rule.\<close>

definition ruby_declKinds_any :: "EntityKind list \<Rightarrow> sgrule list" where
  "ruby_declKinds_any entityKinds = filterBoolean
     [pick entityKinds KFunction (kindRule ''method''),
      pick entityKinds KType (kindRule ''class''),
      pick entityKinds KModule (kindRule ''module'')]"

definition ruby_getCommentableNodesMatcher :: "EntityKind list \<Rightarrow> bool \<Rightarrow> bool \<Rightarrow> sgrule" where
  "ruby_getCommentableNodesMatcher entityKinds withComments exportsOnly =
     (let declKinds = SgRule [AnyOf (ruby_declKinds_any entityKinds)];
          withDocComment = commentBefore;
          docsRule = (if withComments then withDocComment else SgRule [NotR withDocComment])
      in spread [declKinds, docsRule])"

text \<open>The C adapter (\<^verbatim>\<open>c.mts\<close>)\<close>

definition c_declKindsRaw_any :: "EntityKind list \<Rightarrow> sgrule list" where
  "c_declKindsRaw_any entityKinds = filterBoolean
     [pick entityKinds KFunction (kindRule ''function_definition''),
      pick entityKinds KType (kindRule ''type_definition''),
      pick entityKinds KType (kindRule ''struct_specifier''),
      pick entityKinds KType (kindRule ''enum_specifier''),
      pick entityKinds KVariable
        (SgRule [Kind ''declaration'', Inside (kindRule ''translation_unit'')])]"

definition c_getCommentableNodesMatcher :: "EntityKind list \<Rightarrow> bool \<Rightarrow> bool \<Rightarrow> sgrule" where
  "c_getCommentableNodesMatcher entityKinds withComments exportsOnly =
     (let declKindsRaw = SgRule [AnyOf (c_declKindsRaw_any entityKinds)];
          declKinds = SgRule [AnyOf [declKindsRaw]];
          inside = SgRule [Inside (kindRule ''translation_unit'')];
          withDocComment = commentBefore;
          docsRule = (if withComments then withDocComment else SgRule [NotR withDocComment])
      in spread [declKinds, inside, docsRule])"

text \<open>The C++ adapter (\<^verbatim>\<open>cpp.mts\<close>)\<close>

definition cpp_scopes :: sgrule where
  "cpp_scopes = SgRule [AnyOf [kindRule ''translation_unit'', kindRule ''namespace_definition'',
     kindRule ''class_specifier'']]"

definition cpp_declKindsRaw_any :: "EntityKind list \<Rightarrow> sgrule list" where
  "cpp_declKindsRaw_any entityKinds = filterBoolean
     [pick entityKinds KFunction (kindRule ''function_definition''),
      pick entityKinds KFunction (kindRule ''function_declarator''),
      pick entityKinds KType (kindRule ''class_specifier''),
      pick entityKinds KType (kindRule ''struct_specifier''),
      pick entityKinds KType (kindRule ''enum_specifier''),
      pick entityKinds KType (kindRule ''type_definition''),
      pick entityKinds KType (kindRule ''template_declaration''),
      pick entityKinds KModule (kindRule ''namespace_definition''),
      pick entityKinds KVariable (SgRule [Kind ''declaration'', Inside cpp_scopes])]"

definition cpp_getCommentableNodesMatcher :: "EntityKind list \<Rightarrow> bool \<Rightarrow> bool \<Rightarrow> sgrule" where
  "cpp_getCommentableNodesMatcher entityKinds withComments exportsOnly =
     (let declKindsRaw = SgRule [AnyOf (cpp_declKindsRaw_any entityKinds)];
          declKinds = SgRule [AnyOf [declKindsRaw]];
          inside = SgRule [Inside cpp_scopes];
          withDocComment = commentBefore;
          docsRule = (if withComments then withDocComment else SgRule [NotR withDocComment])
      in spread [declKinds, inside, docsRule])"

text \<open>The Java adapter (\<^verbatim>\<open>java.mts\<close>)\<close>

definition java_declKindsRaw_any :: "EntityKind list \<Rightarrow> sgrule list" where
  "java_declKindsRaw_any entityKinds = filterBoolean
     [pick entityKinds KType (kindRule ''class_declaration''),
      pick entityKinds KType (kindRule ''interface_declaration''),
      pick entityKinds KType (kindRule ''enum_declaration''),
      pick entityKinds KType (kindRule ''annotation_type_declaration''),
      pick entityKinds KFunction (kindRule ''method_declaration''),
      pick entityKinds KFunction (kindRule ''constructor_declaration''),
      pick entityKinds KProperty (kindRule ''field_declaration''),
      pick entityKinds KProperty (kindRule ''enum_constant'')]"

definition java_withDocComment :: sgrule where
  "java_withDocComment =
     SgRule [Follows (SgRule [AnyOf [kindRule ''block_comment'', kindRule ''line_comment''],
       StopBy Neighbor])]"

definition java_getCommentableNodesMatcher :: "EntityKind list \<Rightarrow> bool \<Rightarrow> bool \<Rightarrow> sgrule" where
  "java_getCommentableNodesMatcher entityKinds withComments exportsOnly =
     (let declKindsRaw = SgRule [AnyOf (java_declKindsRaw_any entityKinds)];
          declKinds =
            (if exportsOnly
             then SgRule [AllOf [declKindsRaw,
                    SgRule [Has (SgRule [Kind ''modifiers'', Has (kindRule ''public'')])]]]
             else declKindsRaw);
          inside = SgRule [Inside (SgRule [AnyOf [kindRule ''program'', kindRule ''class_body'',
                     kindRule ''interface_body'', kindRule ''enum_body'']])];
          docsRule = (if withComments then java_withDocComment else SgRule [NotR java_withDocComment])
      in spread [declKinds, inside, docsRule])"

text \<open>The Rust adapter (\<^verbatim>\<open>rust.mts\<close>)\<close>

definition rust_declKindsRaw_any :: "EntityKind list \<Rightarrow> sgrule list" where
  "rust_declKindsRaw_any entityKinds = filterBoolean
     [pick entityKinds KFunction (kindRule ''function_item''),
      pick entityKinds KType (kindRule ''struct_item''),
      pick entityKinds KType (kindRule ''enum_item''),
      pick entityKinds KType (kindRule ''type_item''),
      pick entityKinds KType (kindRule ''trait_item''),
      pick entityKinds KType (kindRule ''impl_item''),
      pick entityKinds KModule (kindRule ''mod_item''),
      pick entityKinds KVariable (kindRule ''const_item''),
      pick entityKinds KVariable (kindRule ''static_item'')]"

definition rust_withDocComment :: sgrule where
  "rust_withDocComment =
     SgRule [Follows (SgRule [Kind ''line_comment'', Regex ''^///'', StopBy Neighbor])]"

definition rust_getCommentableNodesMatcher :: "EntityKind list \<Rightarrow> bool \<Rightarrow> bool \<Rightarrow> sgrule" where
  "rust_getCommentableNodesMatcher entityKinds withComments exportsOnly =
     (let declKindsRaw = SgRule [AnyOf (rust_declKindsRaw_any entityKinds)];
          declKinds =
            (if exportsOnly
             then SgRule [AnyOf [SgRule [AnyOf (rust_declKindsRaw_any entityKinds),
                    Has (kindRule ''visibility_modifier'')]]]
             else SgRule [AnyOf [declKindsRaw]]);
          inside = SgRule [Inside (SgRule [AnyOf [kindRule ''source_file'', kindRule ''mod_item'',
                     kindRule ''impl_item'']])];
          docsRule = (if withComments then rust_withDocComment else SgRule [NotR rust_withDocComment])
      in spread [declKinds, inside, docsRule])"

section \<open>Strings\<close>

text \<open>
  A text is the sequence of the UTF-8 bytes of the JavaScript string. \<open>NL\<close> is the line
  feed, \<open>CR\<close> the carriage return and \<open>BSL\<close> the backslash.
\<close>

definition NL :: char where "NL = CHR 0x0A"
definition CR :: char where "CR = CHR 0x0D"
definition BSL :: char where "BSL = CHR 0x5C"

text \<open>
  The characters that \<^verbatim>\<open>String.prototype.trim\<close> removes and that \<^verbatim>\<open>\s\<close> matches are the
  white space and line terminator characters of ECMAScript. Six of them are single
  bytes: tab, line feed, vertical tab, form feed, carriage return and space. The others
  are U+00A0, U+1680, U+2000 to U+200A, U+2028, U+2029, U+202F, U+205F, U+3000 and
  U+FEFF, here as their UTF-8 bytes.
\<close>

definition is_space :: "char \<Rightarrow> bool" where
  "is_space c = (c \<in> set [CHR 0x09, CHR 0x0A, CHR 0x0B, CHR 0x0C, CHR 0x0D, CHR 0x20])"

definition wide_spaces :: "string list" where
  "wide_spaces =
     [[CHR 0xC2, CHR 0xA0],
      [CHR 0xE1, CHR 0x9A, CHR 0x80],
      [CHR 0xE2, CHR 0x80, CHR 0x80], [CHR 0xE2, CHR 0x80, CHR 0x81],
      [CHR 0xE2, CHR 0x80, CHR 0x82], [CHR 0xE2, CHR 0x80, CHR 0x83],
      [CHR 0xE2, CHR 0x80, CHR 0x84], [CHR 0xE2, CHR 0x80, CHR 0x85],
      [CHR 0xE2, CHR 0x80, CHR 0x86], [CHR 0xE2, CHR 0x80, CHR 0x87],
      [CHR 0xE2, CHR 0x80, CHR 0x88], [CHR 0xE2, CHR 0x80, CHR 0x89],
      [CHR 0xE2, CHR 0x80, CHR 0x8A],
      [CHR 0xE2, CHR 0x80, CHR 0xA8], [CHR 0xE2, CHR 0x80, CHR 0xA9],
      [CHR 0xE2, CHR 0x80, CHR 0xAF],
      [CHR 0xE2, CHR 0x81, CHR 0x9F],
      [CHR 0xE3, CHR 0x80, CHR 0x80],
      [CHR 0xEF, CHR 0xBB, CHR 0xBF]]"

text \<open>The number of bytes of the white space character at the start, or at the end, of a text.\<close>

definition space_width :: "string \<Rightarrow> nat" where
  "space_width s =
     (case s of
        [] \<Rightarrow> 0
      | c # _ \<Rightarrow>
          if is_space c then 1
          else (case find (\<lambda>w. prefix w s) wide_spaces of None \<Rightarrow> 0 | Some w \<Rightarrow> length w))"

definition space_width_end :: "string \<Rightarrow> nat" where
  "space_width_end s =
     (case rev s of
        [] \<Rightarrow> 0
      | c # _ \<Rightarrow>
          if is_space c then 1
          else (case find (\<lambda>w. suffix w s) wide_spaces of None \<Rightarrow> 0 | Some w \<Rightarrow> length w))"

function trimStart :: "string \<Rightarrow> string" where
  "trimStart s = (if space_width s = 0 then s else trimStart (drop (space_width s) s))"
  by pat_completeness auto
termination
  by (relation "measure length") (auto simp: space_width_def split: list.splits)

function trimEnd :: "string \<Rightarrow> string" where
  "trimEnd s =
     (if space_width_end s = 0 then s else trimEnd (take (length s - space_width_end s) s))"
  by pat_completeness auto
termination
  by (relation "measure length") (auto simp: space_width_end_def split: list.splits)

declare trimStart.simps [simp del] trimEnd.simps [simp del]

definition trim :: "string \<Rightarrow> string" where
  "trim s = trimEnd (trimStart s)"

text \<open>\<^verbatim>\<open>s.split(/\r?\n/g)\<close>\<close>

fun split_lines :: "string \<Rightarrow> string list" where
  "split_lines [] = [[]]"
| "split_lines (c # cs) =
     (if c = NL then [] # split_lines cs
      else if c = CR \<and> take 1 cs = [NL] then [] # split_lines (drop 1 cs)
      else (case split_lines cs of [] \<Rightarrow> [[c]] | l # ls \<Rightarrow> (c # l) # ls))"

text \<open>
  \<^verbatim>\<open>s.split(/\\r?\\n/g)\<close> as the Ruby adapter writes it: the separator is a backslash,
  an optional letter \<^verbatim>\<open>r\<close>, a backslash and the letter \<^verbatim>\<open>n\<close>.
\<close>

fun split_escaped :: "string \<Rightarrow> string list" where
  "split_escaped [] = [[]]"
| "split_escaped (c # cs) =
     (if c = BSL \<and> take 2 cs = [BSL, CHR ''n''] then [] # split_escaped (drop 2 cs)
      else if c = BSL \<and> take 3 cs = [CHR ''r'', BSL, CHR ''n''] then [] # split_escaped (drop 3 cs)
      else (case split_escaped cs of [] \<Rightarrow> [[c]] | l # ls \<Rightarrow> (c # l) # ls))"

text \<open>
  Splitting at every line terminator: line feed, carriage return, U+2028 and U+2029.
\<close>

fun split_terminators :: "string \<Rightarrow> string list" where
  "split_terminators [] = [[]]"
| "split_terminators (c # cs) =
     (if c = NL \<or> c = CR then [] # split_terminators cs
      else if c = CHR 0xE2 \<and> (take 2 cs = [CHR 0x80, CHR 0xA8] \<or> take 2 cs = [CHR 0x80, CHR 0xA9])
      then [] # split_terminators (drop 2 cs)
      else (case split_terminators cs of [] \<Rightarrow> [[c]] | l # ls \<Rightarrow> (c # l) # ls))"

text \<open>\<^verbatim>\<open>xs.join(sep)\<close>\<close>

fun join :: "string \<Rightarrow> string list \<Rightarrow> string" where
  "join sep [] = []"
| "join sep [x] = x"
| "join sep (x # y # ys) = x @ sep @ join sep (y # ys)"

text \<open>\<^verbatim>\<open>s.includes(sub)\<close>\<close>

definition includes_str :: "string \<Rightarrow> string \<Rightarrow> bool" where
  "includes_str s sub = list_ex (\<lambda>n. prefix sub (drop n s)) [0..<Suc (length s)]"

section \<open>The formatters of the line-comment languages\<close>

text \<open>
  \<^verbatim>\<open>parsers.unfence\<close> belongs to the runtime, not to the repository; the formatters take
  it as a parameter (text and language tag to text).
\<close>

type_synonym unfence = "string \<Rightarrow> string \<Rightarrow> string"

text \<open>\<^verbatim>\<open>go.mts\<close>, \<^verbatim>\<open>getCommentText\<close>; the test \<^verbatim>\<open>/^\/\//\<close> is a prefix test.\<close>

definition go_getCommentText :: "unfence \<Rightarrow> string \<Rightarrow> string" where
  "go_getCommentText unfence docs0 =
     (let docs = unfence docs0 ''/'' in
      if prefix ''//'' (trim docs) then docs
      else
        let lines = filter (\<lambda>line. line \<noteq> []) (map trim (split_lines docs))
        in join [NL] (map (\<lambda>line. ''// '' @ line) lines))"

text \<open>\<^verbatim>\<open>csharp.mts\<close>, \<^verbatim>\<open>getCommentText\<close>: no test of the input, and the separator is \<^verbatim>\<open>"/// "\<close>.\<close>

definition csharp_getCommentText :: "unfence \<Rightarrow> string \<Rightarrow> string" where
  "csharp_getCommentText unfence docs0 =
     (let docs = unfence docs0 ''*'' in
      ''/// '' @ join ''/// '' (map trim (split_lines docs)))"

text \<open>
  \<^verbatim>\<open>ruby.mts\<close>, \<^verbatim>\<open>getCommentText\<close>. The test \<^verbatim>\<open>/^(\s*#.*\n?)+$/m\<close> succeeds exactly when
  some line of the text has \<^verbatim>\<open>#\<close> as its first character that is not white space: with
  the \<^verbatim>\<open>m\<close> flag \<^verbatim>\<open>^\<close> and \<^verbatim>\<open>$\<close> match at every line boundary, \<^verbatim>\<open>\s*\<close> may run over
  line terminators, and \<^verbatim>\<open>.*\<close> reaches the end of the line of the \<^verbatim>\<open>#\<close>.
\<close>

definition ruby_commentLine :: "string \<Rightarrow> bool" where
  "ruby_commentLine line = (take 1 (trimStart line) = ''#'')"

definition ruby_isComment :: "string \<Rightarrow> bool" where
  "ruby_isComment s = list_ex ruby_commentLine (split_terminators s)"

definition ruby_getCommentText :: "unfence \<Rightarrow> string \<Rightarrow> string" where
  "ruby_getCommentText unfence docs0 =
     (let docs = unfence docs0 ''#'' in
      if ruby_isComment (trim docs) then docs
      else
        let lines = filter (\<lambda>line. line \<noteq> [] \<or> includes_str docs [BSL, CHR ''n''])
                      (map trim (split_escaped docs))
        in if length lines = 0 then ''# TODO: Add documentation''
           else join [BSL, CHR ''n'']
                  (map (\<lambda>line. if line = [] then ''#''
                               else if prefix ''#'' line then line
                               else ''# '' @ line) lines))"

text \<open>Sample texts: two lines, and a line that already is a C# documentation comment.\<close>

definition two_lines :: string where
  "two_lines = ''first'' @ [NL] @ ''second''"

definition csharp_doc_line :: string where
  "csharp_doc_line = ''/// Adds two numbers.''"

text \<open>\<^verbatim>\<open>parsers.unfence\<close> on a text that carries no fence returns the text.\<close>

definition unfenced :: unfence where
  "unfenced docs lang = docs"

section \<open>Sample trees\<close>

text \<open>A C file: a documented function followed by an undocumented one.\<close>

definition c_sample :: tree where
  "c_sample = Node ''translation_unit'' ''''
     [Node ''comment'' ''/** Adds. */'' [],
      Node ''function_definition'' ''int add(int a, int b) { return a + b; }'' [],
      Node ''function_definition'' ''int sub(int a, int b) { return a - b; }'' []]"

text \<open>
  A Python module: \<^verbatim>\<open>outer\<close> has a docstring and defines \<^verbatim>\<open>inner\<close> in its body.
  The node of \<^verbatim>\<open>inner\<close> is at path \<open>[1, 2, 0]\<close>.
\<close>

definition py_sample :: tree where
  "py_sample = Node ''module'' ''''
     [Node ''function_definition'' ''def outer(): ...''
        [Node ''identifier'' ''outer'' [],
         Node ''parameters'' ''()'' [],
         Node ''block'' ''...''
           [Node ''expression_statement'' ''DOC'' [Node ''string'' ''DOC'' []],
            Node ''function_definition'' ''def inner(): pass''
              [Node ''identifier'' ''inner'' [],
               Node ''parameters'' ''()'' [],
               Node ''block'' ''pass'' [Node ''pass_statement'' ''pass'' []]]]]]"

text \<open>
  A Ruby file: method \<^verbatim>\<open>outer\<close> defines method \<^verbatim>\<open>inner\<close> in its body; \<^verbatim>\<open>inner\<close> is at
  path \<open>[0, 1, 0]\<close>.
\<close>

definition ruby_sample :: tree where
  "ruby_sample = Node ''program'' ''''
     [Node ''method'' ''def outer; def inner; end; end''
        [Node ''identifier'' ''outer'' [],
         Node ''body_statement'' ''def inner; end''
           [Node ''method'' ''def inner; end'' [Node ''identifier'' ''inner'' []]]]]"

text \<open>
  A C# file: a class with a method preceded by two comment lines; the method is at path
  \<open>[2, 1, 0]\<close> and the comments at \<open>[0, 1, 0]\<close> and \<open>[1, 1, 0]\<close>.
\<close>

definition csharp_sample :: tree where
  "csharp_sample = Node ''compilation_unit'' ''''
     [Node ''class_declaration'' ''class A { void M() { } }''
        [Node ''identifier'' ''A'' [],
         Node ''declaration_list'' ''{ void M() { } }''
           [Node ''comment'' ''/// first'' [],
            Node ''comment'' ''/// second'' [],
            Node ''method_declaration'' ''void M() { }'' [Node ''identifier'' ''M'' []]]]]"

text \<open>
  A Go file with one exported declaration of each kind the adapter lists: the function
  \<^verbatim>\<open>AddNumbers\<close> at path \<open>[0]\<close>, the method \<^verbatim>\<open>String\<close> at \<open>[1]\<close>, the type \<^verbatim>\<open>Point\<close> at
  \<open>[2]\<close>, the constant \<^verbatim>\<open>PI\<close> at \<open>[3]\<close> and the variable \<^verbatim>\<open>GlobalCounter\<close> at \<open>[4]\<close>.
\<close>

definition go_exports_sample :: tree where
  "go_exports_sample = Node ''source_file'' ''''
     [Node ''function_declaration'' ''func AddNumbers(a, b int) int { return a + b }''
        [Node ''identifier'' ''AddNumbers'' [],
         Node ''parameter_list'' ''(a, b int)'' [],
         Node ''type_identifier'' ''int'' [],
         Node ''block'' ''{ return a + b }'' []],
      Node ''method_declaration'' ''func (p Point) String() string { return p.name }''
        [Node ''parameter_list'' ''(p Point)''
           [Node ''parameter_declaration'' ''p Point''
              [Node ''identifier'' ''p'' [], Node ''type_identifier'' ''Point'' []]],
         Node ''field_identifier'' ''String'' [],
         Node ''parameter_list'' ''()'' [],
         Node ''type_identifier'' ''string'' [],
         Node ''block'' ''{ return p.name }'' []],
      Node ''type_declaration'' ''type Point struct { X, Y float64 }''
        [Node ''type_spec'' ''Point struct { X, Y float64 }''
           [Node ''type_identifier'' ''Point'' [],
            Node ''struct_type'' ''struct { X, Y float64 }'' []]],
      Node ''const_declaration'' ''const PI = 3.14159265359''
        [Node ''const_spec'' ''PI = 3.14159265359''
           [Node ''identifier'' ''PI'' [], Node ''expression_list'' ''3.14159265359'' []]],
      Node ''var_declaration'' ''var GlobalCounter int''
        [Node ''var_spec'' ''GlobalCounter int''
           [Node ''identifier'' ''GlobalCounter'' [], Node ''type_identifier'' ''int'' []]]]"

section \<open>Comment spans\<close>

text \<open>
  \<^verbatim>\<open>go.mts\<close>, \<^verbatim>\<open>getCommentNodes\<close>: walk back over the previous siblings while they are
  \<^verbatim>\<open>//\<close> comments; \<^verbatim>\<open>unshift\<close> puts each one in front of those found before.
\<close>

definition go_isComment :: "tree \<Rightarrow> path \<Rightarrow> bool" where
  "go_isComment t c =
     (kind_at t c = Some ''comment'' \<and>
      (case text_at t c of None \<Rightarrow> False | Some s \<Rightarrow> prefix ''//'' s))"

function go_collect :: "tree \<Rightarrow> path option \<Rightarrow> path list \<Rightarrow> path list" where
  "go_collect t None commentNodes = commentNodes"
| "go_collect t (Some current) commentNodes =
     (if go_isComment t current
      then go_collect t (prev current) (current # commentNodes)
      else commentNodes)"
  by pat_completeness auto
termination
  by (relation "measure (\<lambda>(t, current, acc).
        case current of None \<Rightarrow> 0 | Some [] \<Rightarrow> 1 | Some (i # ps) \<Rightarrow> i + 2)")
    (auto split: list.splits option.splits if_splits elim: prev.elims)

definition go_getCommentNodes :: "tree \<Rightarrow> path \<Rightarrow> path list option" where
  "go_getCommentNodes t node =
     (let commentNodes = go_collect t (prev node) []
      in if length commentNodes > 0 then Some commentNodes else None)"

text \<open>
  \<^verbatim>\<open>csharp.mts\<close>, \<^verbatim>\<open>getCommentNodes\<close>: the loop moves \<^verbatim>\<open>node\<close> itself backwards and
  \<^verbatim>\<open>push\<close>es each comment at the end of the list.
\<close>

function csharp_collect :: "tree \<Rightarrow> path \<Rightarrow> path list \<Rightarrow> path list" where
  "csharp_collect t node commentNodes =
     (case prev node of
        None \<Rightarrow> commentNodes
      | Some q \<Rightarrow>
          if kind_at t q = Some ''comment''
          then csharp_collect t q (commentNodes @ [q])
          else commentNodes)"
  by pat_completeness auto
termination
  by (relation "measure (\<lambda>(t, node, acc). case node of [] \<Rightarrow> 0 | i # ps \<Rightarrow> i)")
    (auto split: list.splits if_splits elim: prev.elims)

declare csharp_collect.simps [simp del]

definition csharp_getCommentNodes :: "tree \<Rightarrow> path \<Rightarrow> path list" where
  "csharp_getCommentNodes t node = csharp_collect t node []"

text \<open>A Go file whose function is preceded by two comment lines.\<close>

definition go_sample2 :: tree where
  "go_sample2 = Node ''source_file'' ''''
     [Node ''comment'' ''// Add adds two numbers.'' [],
      Node ''comment'' ''// It returns the sum.'' [],
      Node ''function_declaration'' ''func Add(a, b int) int { return a + b }''
        [Node ''identifier'' ''Add'' []]]"

section \<open>The edit budget\<close>

text \<open>
  Modelled from the spec: the orchestrator (\<^verbatim>\<open>genaisrc/action.genai.mts\<close>) is not among
  the sources. Sections 3, 4.5 and 7 of the specification describe it: the budget
  \<open>{editsUsed, editsMax, contextTokensMax}\<close> is reset at the start of each run; candidates
  are processed one after the other; once the budget is exhausted no new request is
  issued and the candidate is recorded as \<open>Skip-Budget\<close>; an oracle failure is recorded
  as \<open>Skip-Error\<close> and the run continues; the "no change" sentinel is recorded as
  \<open>Skip-NoChange\<close> and not charged; a text is formatted and applied as an \<open>Insert\<close>
  (undocumented candidate) or an \<open>Update\<close> (documented candidate) and charged to the
  budget. The optional judge and the preview mode do not touch the budget and are left
  out. A candidate carries the answer the oracle gives for it.
\<close>

datatype oracle_response = Text string | NoChange | Failure

datatype edit_kind = Insert | Update | Skip_NoChange | Skip_Budget | Skip_Error

record candidate =
  hasExistingDoc :: bool
  response :: oracle_response

record EditBudget =
  editsUsed :: nat
  editsMax :: nat
  contextTokensMax :: nat

record EditRecord =
  target :: candidate
  newText :: string
  kind :: edit_kind

definition process :: "(string \<Rightarrow> string) \<Rightarrow> EditBudget \<Rightarrow> candidate \<Rightarrow> EditBudget \<times> EditRecord" where
  "process format b c =
     (if editsUsed b \<ge> editsMax b
      then (b, \<lparr>target = c, newText = [], kind = Skip_Budget\<rparr>)
      else
        (case response c of
           Failure \<Rightarrow> (b, \<lparr>target = c, newText = [], kind = Skip_Error\<rparr>)
         | NoChange \<Rightarrow> (b, \<lparr>target = c, newText = [], kind = Skip_NoChange\<rparr>)
         | Text raw \<Rightarrow>
             (b\<lparr>editsUsed := editsUsed b + 1\<rparr>,
              \<lparr>target = c, newText = format raw,
               kind = (if hasExistingDoc c then Update else Insert)\<rparr>)))"

fun processAll :: "(string \<Rightarrow> string) \<Rightarrow> EditBudget \<Rightarrow> candidate list \<Rightarrow> EditBudget \<times> EditRecord list" where
  "processAll format b [] = (b, [])"
| "processAll format b (c # cs) =
     (let (b', r) = process format b c;
          (b'', rs) = processAll format b' cs
      in (b'', r # rs))"

definition run :: "(string \<Rightarrow> string) \<Rightarrow> nat \<Rightarrow> nat \<Rightarrow> candidate list \<Rightarrow> EditBudget \<times> EditRecord list" where
  "run format maxEdits maxContext cs =
     processAll format \<lparr>editsUsed = 0, editsMax = maxEdits, contextTokensMax = maxContext\<rparr> cs"

text \<open>Five undocumented candidates for which the oracle answers with a text.\<close>

definition five_candidates :: "candidate list" where
  "five_candidates = replicate 5 \<lparr>hasExistingDoc = False, response = Text ''Adds two numbers.''\<rparr>"

text \<open>A documented candidate that needs no change, met while one edit of two is used.\<close>

definition noChange_candidate :: candidate where
  "noChange_candidate = \<lparr>hasExistingDoc = True, response = NoChange\<rparr>"

definition open_budget :: EditBudget where
  "open_budget = \<lparr>editsUsed = 1, editsMax = 2, contextTokensMax = 0\<rparr>"

section \<open>Notions used to state the properties\<close>

text \<open>The kind of the node that immediately encloses a node.\<close>

definition parent_kind :: "tree \<Rightarrow> path \<Rightarrow> string option" where
  "parent_kind t p = (case parent p of None \<Rightarrow> None | Some q \<Rightarrow> kind_at t q)"

text \<open>
  The \<^verbatim>\<open>has\<close> clause the Go adapter adds when \<^verbatim>\<open>exportsOnly\<close> is set,
  \<^verbatim>\<open>has: { kind: "identifier", regex: "^[A-Z]" }\<close>: some direct child of the node is of
  kind \<^verbatim>\<open>identifier\<close> and its text begins with a capital letter. This is the rule's test
  only; it is not the exported state of a declaration, whose name need not be such a
  child.
\<close>

definition go_capitalIdentifierChild :: "tree \<Rightarrow> path \<Rightarrow> bool" where
  "go_capitalIdentifierChild t p = field_matches (Has go_capitalIdentifier) t p"

text \<open>The Go adapter's documentation test: the previous sibling is a \<^verbatim>\<open>//\<close> comment.\<close>

definition go_isDocumented :: "tree \<Rightarrow> path \<Rightarrow> bool" where
  "go_isDocumented t p = matches go_withDocComment t p"

text \<open>The concrete node kinds the Go adapter lists for the requested entity kinds.\<close>

definition go_requested :: "EntityKind list \<Rightarrow> string \<Rightarrow> bool" where
  "go_requested ks k =
     ((k = ''function_declaration'' \<or> k = ''method_declaration'') \<and> KFunction \<in> set ks \<or>
      k = ''type_declaration'' \<and> KType \<in> set ks \<or>
      (k = ''var_declaration'' \<or> k = ''const_declaration'') \<and> KVariable \<in> set ks)"

text \<open>A text begins with a capital letter \<^verbatim>\<open>A\<close> to \<^verbatim>\<open>Z\<close>.\<close>

definition capital :: "string \<Rightarrow> bool" where
  "capital s =
     (case s of [] \<Rightarrow> False | a # _ \<Rightarrow> (65::nat) \<le> of_char a \<and> of_char a \<le> (90::nat))"

text \<open>An edit record is charged to the budget when it is an insert or an update.\<close>

definition charged :: "EditRecord \<Rightarrow> bool" where
  "charged r = (kind r = Insert \<or> kind r = Update)"

section \<open>Facts about the evaluator\<close>

lemma take1_prev_all: "take (Suc 0) (prev_all p) = (case prev p of None \<Rightarrow> [] | Some q \<Rightarrow> [q])"
  by (cases p) (simp_all add: take_map rev_nth take_Suc hd_rev split: nat.splits)

lemma take1_ancestors: "take (Suc 0) (ancestors p) = (case parent p of None \<Rightarrow> [] | Some q \<Rightarrow> [q])"
  by (cases p) simp_all

lemma matches_kindRule: "matches (kindRule k) t p = (kind_at t p = Some k)"
  by (auto simp: kindRule_def kind_at_def)

lemma spread_two:
  "spread [SgRule a, SgRule b] =
   SgRule (filter (\<lambda>f. field_key f \<notin> set (map field_key b)) a @ b)"
  by (simp add: spread_def spread2_def)

lemma spread_three:
  "spread [SgRule a, SgRule b, SgRule c] =
   SgRule (filter (\<lambda>f. field_key f \<notin> set (map field_key c))
     (filter (\<lambda>f. field_key f \<notin> set (map field_key b)) a @ b) @ c)"
  by (simp add: spread_def spread2_def)

lemma regex_slashes: "regex_test ''^//'' s = prefix ''//'' s"
proof (cases s)
  case Nil
  then show ?thesis by (simp add: regex_test_def)
next
  case (Cons c cs)
  then show ?thesis by (cases cs) (auto simp: regex_test_def)
qed

lemma regex_capital:
  "regex_test ''^[A-Z]'' s =
   (case s of [] \<Rightarrow> False | c # _ \<Rightarrow> (65::nat) \<le> of_char c \<and> of_char c \<le> (90::nat))"
  by (cases s) (simp_all add: regex_test_def)

section \<open>Documented and undocumented are exclusive\<close>

lemma go_excl:
  "\<not> (matches (go_getCommentableNodesMatcher ks True eo) t p \<and>
      matches (go_getCommentableNodesMatcher ks False eo) t p)"
  by (auto simp: go_getCommentableNodesMatcher_def spread_three go_withDocComment_def Let_def)

lemma csharp_excl:
  "\<not> (matches (csharp_getCommentableNodesMatcher ks True eo) t p \<and>
      matches (csharp_getCommentableNodesMatcher ks False eo) t p)"
  by (auto simp: csharp_getCommentableNodesMatcher_def spread_three commentBefore_def Let_def)

lemma python_excl:
  "\<not> (matches (pythonOps_getCommentableNodesMatcher ks True eo) t p \<and>
      matches (pythonOps_getCommentableNodesMatcher ks False eo) t p)"
  by (auto simp: pythonOps_getCommentableNodesMatcher_def python_getCommentableNodesMatcher_def
      spread_three python_withDocstring_def Let_def)

lemma ruby_excl:
  "\<not> (matches (ruby_getCommentableNodesMatcher ks True eo) t p \<and>
      matches (ruby_getCommentableNodesMatcher ks False eo) t p)"
  by (auto simp: ruby_getCommentableNodesMatcher_def spread_two commentBefore_def Let_def)

lemma c_excl:
  "\<not> (matches (c_getCommentableNodesMatcher ks True eo) t p \<and>
      matches (c_getCommentableNodesMatcher ks False eo) t p)"
  by (auto simp: c_getCommentableNodesMatcher_def spread_three commentBefore_def Let_def)

lemma cpp_excl:
  "\<not> (matches (cpp_getCommentableNodesMatcher ks True eo) t p \<and>
      matches (cpp_getCommentableNodesMatcher ks False eo) t p)"
  by (auto simp: cpp_getCommentableNodesMatcher_def spread_three commentBefore_def Let_def)

lemma java_excl:
  "\<not> (matches (java_getCommentableNodesMatcher ks True eo) t p \<and>
      matches (java_getCommentableNodesMatcher ks False eo) t p)"
  by (auto simp: java_getCommentableNodesMatcher_def spread_three java_withDocComment_def Let_def)

lemma rust_excl:
  "\<not> (matches (rust_getCommentableNodesMatcher ks True eo) t p \<and>
      matches (rust_getCommentableNodesMatcher ks False eo) t p)"
  by (auto simp: rust_getCommentableNodesMatcher_def spread_three rust_withDocComment_def Let_def)

text \<open>
  Claim C9. For every adapter, every node and every fixed choice of entity kinds and
  \<^verbatim>\<open>exportsOnly\<close>, the node satisfies at most one of the two rules that
  \<^verbatim>\<open>getCommentableNodesMatcher\<close> builds with \<^verbatim>\<open>withComments=true\<close> and with
  \<^verbatim>\<open>withComments=false\<close>: no node is counted documented and undocumented by the same
  query shape.
\<close>

theorem documented_undocumented_exclusive:
  "\<not> (matches (go_getCommentableNodesMatcher ks True eo) t p \<and>
      matches (go_getCommentableNodesMatcher ks False eo) t p) \<and>
   \<not> (matches (csharp_getCommentableNodesMatcher ks True eo) t p \<and>
      matches (csharp_getCommentableNodesMatcher ks False eo) t p) \<and>
   \<not> (matches (pythonOps_getCommentableNodesMatcher ks True eo) t p \<and>
      matches (pythonOps_getCommentableNodesMatcher ks False eo) t p) \<and>
   \<not> (matches (ruby_getCommentableNodesMatcher ks True eo) t p \<and>
      matches (ruby_getCommentableNodesMatcher ks False eo) t p) \<and>
   \<not> (matches (c_getCommentableNodesMatcher ks True eo) t p \<and>
      matches (c_getCommentableNodesMatcher ks False eo) t p) \<and>
   \<not> (matches (cpp_getCommentableNodesMatcher ks True eo) t p \<and>
      matches (cpp_getCommentableNodesMatcher ks False eo) t p) \<and>
   \<not> (matches (java_getCommentableNodesMatcher ks True eo) t p \<and>
      matches (java_getCommentableNodesMatcher ks False eo) t p) \<and>
   \<not> (matches (rust_getCommentableNodesMatcher ks True eo) t p \<and>
      matches (rust_getCommentableNodesMatcher ks False eo) t p)"
  using go_excl csharp_excl python_excl ruby_excl c_excl cpp_excl java_excl rust_excl
  by (intro conjI)

theorem documented_undocumented_exclusive_witness:
  "matches (c_getCommentableNodesMatcher [KFunction] True False) c_sample [1] \<and>
   \<not> matches (c_getCommentableNodesMatcher [KFunction] False False) c_sample [1]"
proof -
  have "matches (c_getCommentableNodesMatcher [KFunction] True False) c_sample [1]"
    by code_simp
  with documented_undocumented_exclusive [of "[KFunction]" False c_sample "[1]"]
  show ?thesis by blast
qed

section \<open>The export flag where the adapter has no visibility rule\<close>

text \<open>
  Claim C4. For the adapters of languages with no visibility concept (C, C#, and
  likewise C++ and Ruby), \<^verbatim>\<open>getCommentableNodesMatcher\<close> with \<^verbatim>\<open>exportsOnly=true\<close>
  yields the rule it yields with \<^verbatim>\<open>exportsOnly=false\<close>, so both match the same set of
  nodes of any tree: the flag never empties the result.
\<close>

theorem exportsOnly_noop:
  "c_getCommentableNodesMatcher ks wc True = c_getCommentableNodesMatcher ks wc False \<and>
   csharp_getCommentableNodesMatcher ks wc True = csharp_getCommentableNodesMatcher ks wc False \<and>
   cpp_getCommentableNodesMatcher ks wc True = cpp_getCommentableNodesMatcher ks wc False \<and>
   ruby_getCommentableNodesMatcher ks wc True = ruby_getCommentableNodesMatcher ks wc False \<and>
   {p. matches (c_getCommentableNodesMatcher ks wc True) t p} =
     {p. matches (c_getCommentableNodesMatcher ks wc False) t p} \<and>
   {p. matches (csharp_getCommentableNodesMatcher ks wc True) t p} =
     {p. matches (csharp_getCommentableNodesMatcher ks wc False) t p}"
  by (simp add: c_getCommentableNodesMatcher_def csharp_getCommentableNodesMatcher_def
      cpp_getCommentableNodesMatcher_def ruby_getCommentableNodesMatcher_def)

theorem exportsOnly_noop_witness:
  "[1] \<in> {p. matches (c_getCommentableNodesMatcher [KFunction] True True) c_sample p}"
proof -
  have "matches (c_getCommentableNodesMatcher [KFunction] True False) c_sample [1]"
    by code_simp
  with exportsOnly_noop [of "[KFunction]" True c_sample] show ?thesis
    by simp
qed

section \<open>The Python matcher and the entity kinds\<close>

text \<open>
  Claim C10. The Python matcher depends only on the intersection of the requested
  entity kinds with \<open>{function, type}\<close> (and on \<^verbatim>\<open>withComments\<close>): two lists with the same
  intersection give identical rules; the \<^verbatim>\<open>exportsOnly\<close> argument of the interface never
  affects the rule; and when only module, property or variable kinds are requested the
  list of declaration-kind alternatives is empty and no node is matched.
\<close>

theorem python_matcher_kinds:
  "(set ks1 \<inter> {KFunction, KType} = set ks2 \<inter> {KFunction, KType} \<longrightarrow>
      python_getCommentableNodesMatcher ks1 wc = python_getCommentableNodesMatcher ks2 wc) \<and>
   pythonOps_getCommentableNodesMatcher ks wc True =
     pythonOps_getCommentableNodesMatcher ks wc False \<and>
   (set ks \<subseteq> {KModule, KProperty, KVariable} \<longrightarrow>
      python_declKinds_any ks = [] \<and>
      \<not> matches (python_getCommentableNodesMatcher ks wc) t p)"
proof (intro conjI impI)
  assume h: "set ks1 \<inter> {KFunction, KType} = set ks2 \<inter> {KFunction, KType}"
  have "KFunction \<in> set ks1 \<inter> {KFunction, KType} \<longleftrightarrow> KFunction \<in> set ks2 \<inter> {KFunction, KType}"
    and "KType \<in> set ks1 \<inter> {KFunction, KType} \<longleftrightarrow> KType \<in> set ks2 \<inter> {KFunction, KType}"
    by (simp_all only: h)
  then have "includesK ks1 KFunction = includesK ks2 KFunction"
    and "includesK ks1 KType = includesK ks2 KType"
    by (simp_all add: includesK_def)
  then show "python_getCommentableNodesMatcher ks1 wc = python_getCommentableNodesMatcher ks2 wc"
    by (simp add: python_getCommentableNodesMatcher_def python_declKinds_any_def pick_def)
next
  show "pythonOps_getCommentableNodesMatcher ks wc True =
      pythonOps_getCommentableNodesMatcher ks wc False"
    by (simp add: pythonOps_getCommentableNodesMatcher_def)
next
  assume h: "set ks \<subseteq> {KModule, KProperty, KVariable}"
  then have "\<not> includesK ks KFunction" and "\<not> includesK ks KType"
    by (auto simp: includesK_def)
  then show e: "python_declKinds_any ks = []"
    by (simp add: python_declKinds_any_def pick_def)
  show "\<not> matches (python_getCommentableNodesMatcher ks wc) t p"
    by (simp add: python_getCommentableNodesMatcher_def e spread_three
        python_withDocstring_def Let_def)
qed

theorem python_matcher_kinds_witness:
  "set [KFunction, KModule] \<inter> {KFunction, KType} =
     set [KVariable, KFunction, KFunction] \<inter> {KFunction, KType} \<and>
   python_getCommentableNodesMatcher [KFunction, KModule] True =
     python_getCommentableNodesMatcher [KVariable, KFunction, KFunction] True \<and>
   set [KModule, KVariable] \<subseteq> {KModule, KProperty, KVariable} \<and>
   python_declKinds_any [KModule, KVariable] = [] \<and>
   \<not> matches (python_getCommentableNodesMatcher [KModule, KVariable] True) py_sample [0]"
proof -
  have a: "set [KFunction, KModule] \<inter> {KFunction, KType} =
     set [KVariable, KFunction, KFunction] \<inter> {KFunction, KType}"
    by auto
  have b: "set [KModule, KVariable] \<subseteq> {KModule, KProperty, KVariable}"
    by simp
  from a b python_matcher_kinds [of "[KFunction, KModule]" "[KVariable, KFunction, KFunction]"
      True "[KModule, KVariable]" py_sample "[0]"]
  show ?thesis by blast
qed

section \<open>Enclosing scopes\<close>

lemma matches_valid: "matches r t p \<Longrightarrow> \<exists>n. node_at t p = Some n"
  by (cases r) auto

lemma inside_cands_neighbor:
  "inside_cands Neighbor p = (case parent p of None \<Rightarrow> [] | Some q \<Rightarrow> [q])"
  by (simp add: inside_cands_def take1_ancestors)

lemma follows_cands_neighbor:
  "follows_cands Neighbor p = (case prev p of None \<Rightarrow> [] | Some q \<Rightarrow> [q])"
  by (simp add: follows_cands_def take1_prev_all)

lemma inside_kindRule: "field_matches (Inside (kindRule k)) t p = (parent_kind t p = Some k)"
  by (auto simp add: inside_cands_neighbor kindRule_def parent_kind_def kind_at_def
      split: option.splits)

lemma inside_anyOf:
  "field_matches (Inside (SgRule [AnyOf rs])) t p =
   (case parent p of None \<Rightarrow> False | Some q \<Rightarrow> \<exists>r \<in> set rs. matches r t q)"
  by (cases "parent p") (auto simp add: inside_cands_neighbor list_ex_iff dest: matches_valid)

lemma go_scope:
  "matches (go_getCommentableNodesMatcher ks wc eo) t p \<Longrightarrow>
   parent_kind t p = Some ''source_file''"
  by (cases eo; cases wc)
    (simp_all add: go_getCommentableNodesMatcher_def go_withDocComment_def spread_three Let_def
      inside_kindRule del: field_matches.simps(7))

lemma c_scope:
  "matches (c_getCommentableNodesMatcher ks wc eo) t p \<Longrightarrow>
   parent_kind t p = Some ''translation_unit''"
  by (cases wc)
    (simp_all add: c_getCommentableNodesMatcher_def commentBefore_def spread_three Let_def
      inside_kindRule del: field_matches.simps(7))

lemma cpp_scope:
  "matches (cpp_getCommentableNodesMatcher ks wc eo) t p \<Longrightarrow>
   parent_kind t p \<in>
     {Some ''translation_unit'', Some ''namespace_definition'', Some ''class_specifier''}"
  by (cases wc)
    (auto simp add: cpp_getCommentableNodesMatcher_def commentBefore_def spread_three Let_def
      cpp_scopes_def inside_anyOf matches_kindRule parent_kind_def
      simp del: field_matches.simps(7) split: option.splits)

lemma java_scope:
  "matches (java_getCommentableNodesMatcher ks wc eo) t p \<Longrightarrow>
   parent_kind t p \<in>
     {Some ''program'', Some ''class_body'', Some ''interface_body'', Some ''enum_body''}"
  by (cases wc; cases eo)
    (auto simp add: java_getCommentableNodesMatcher_def java_withDocComment_def spread_three
      Let_def inside_anyOf matches_kindRule parent_kind_def
      simp del: field_matches.simps(7) split: option.splits)

lemma rust_scope:
  "matches (rust_getCommentableNodesMatcher ks wc eo) t p \<Longrightarrow>
   parent_kind t p \<in> {Some ''source_file'', Some ''mod_item'', Some ''impl_item''}"
  by (cases wc; cases eo)
    (auto simp add: rust_getCommentableNodesMatcher_def rust_withDocComment_def spread_three
      Let_def inside_anyOf matches_kindRule parent_kind_def
      simp del: field_matches.simps(7) split: option.splits)

lemma python_scope:
  "matches (python_getCommentableNodesMatcher ks wc) t p \<Longrightarrow>
   parent_kind t p \<in> {Some ''module'', Some ''block''}"
  by (cases wc)
    (auto simp add: python_getCommentableNodesMatcher_def python_withDocstring_def spread_three
      Let_def inside_anyOf matches_kindRule parent_kind_def
      simp del: field_matches.simps(7) split: option.splits)

lemma ruby_rule_has_no_inside:
  "K_inside \<notin> set (map field_key (rule_fields (ruby_getCommentableNodesMatcher ks wc eo)))"
  by (cases wc)
    (simp_all add: ruby_getCommentableNodesMatcher_def commentBefore_def spread_two Let_def)

lemma sibling_rules_have_inside:
  "K_inside \<in> set (map field_key (rule_fields (go_getCommentableNodesMatcher ks wc eo))) \<and>
   K_inside \<in> set (map field_key (rule_fields (c_getCommentableNodesMatcher ks wc eo))) \<and>
   K_inside \<in> set (map field_key (rule_fields (cpp_getCommentableNodesMatcher ks wc eo))) \<and>
   K_inside \<in> set (map field_key (rule_fields (java_getCommentableNodesMatcher ks wc eo))) \<and>
   K_inside \<in> set (map field_key (rule_fields (rust_getCommentableNodesMatcher ks wc eo))) \<and>
   K_inside \<in> set (map field_key (rule_fields (csharp_getCommentableNodesMatcher ks wc eo))) \<and>
   K_inside \<in> set (map field_key (rule_fields (python_getCommentableNodesMatcher ks wc)))"
  by (cases wc; cases eo)
    (simp_all add: go_getCommentableNodesMatcher_def c_getCommentableNodesMatcher_def
      cpp_getCommentableNodesMatcher_def java_getCommentableNodesMatcher_def
      rust_getCommentableNodesMatcher_def csharp_getCommentableNodesMatcher_def
      python_getCommentableNodesMatcher_def go_withDocComment_def commentBefore_def
      java_withDocComment_def rust_withDocComment_def python_withDocstring_def
      spread_three Let_def)

text \<open>
  Claim C5 at the Ruby adapter. The Ruby rule is built from the declaration kinds and the
  comment rule only: it has no \<^verbatim>\<open>inside\<close> key, where every other adapter adds one
  (\<open>sibling_rules_have_inside\<close>; \<open>go_scope\<close> to \<open>python_scope\<close> give the parent kinds
  they enforce). So the method \<^verbatim>\<open>inner\<close>, defined in the body of the method \<^verbatim>\<open>outer\<close>,
  is matched although its enclosing scope is a method body. The Python rule lists
  \<^verbatim>\<open>block\<close> as enclosing kind, and the body of a function is a \<^verbatim>\<open>block\<close>, so a function
  defined inside another function is matched there as well.
\<close>

theorem nested_declaration_matched:
  "matches (python_getCommentableNodesMatcher [KFunction] False) py_sample [1, 2, 0] \<and>
   parent_kind py_sample [1, 2, 0] = Some ''block'' \<and>
   parent_kind py_sample [2, 0] = Some ''function_definition'' \<and>
   matches (ruby_getCommentableNodesMatcher [KFunction] False False) ruby_sample [0, 1, 0] \<and>
   parent_kind ruby_sample [0, 1, 0] = Some ''body_statement'' \<and>
   parent_kind ruby_sample [1, 0] = Some ''method''"
  by code_simp

section \<open>The Go matcher and the export flag\<close>

lemma subtree_append:
  "subtree t (xs @ ys) = (case subtree t xs of None \<Rightarrow> None | Some n \<Rightarrow> subtree n ys)"
  by (induction xs arbitrary: t) auto

lemma node_at_child:
  "node_at t (i # p) =
   (case node_at t p of None \<Rightarrow> None
    | Some n \<Rightarrow> if i < length (nchildren n) then Some (nchildren n ! i) else None)"
  by (simp add: node_at_def subtree_append split: option.splits)

lemma child_paths_ex:
  "list_ex P (child_paths t p) =
   (\<exists>n i. node_at t p = Some n \<and> i < length (nchildren n) \<and> P (i # p))"
proof (cases "node_at t p")
  case None
  then show ?thesis by (simp add: child_paths_def)
next
  case (Some n)
  then show ?thesis by (auto simp: child_paths_def list_ex_iff)
qed

lemma pick_ex:
  "list_ex P (filterBoolean (pick ks k r # xs)) =
   (includesK ks k \<and> P r \<or> list_ex P (filterBoolean xs))"
  by (simp add: pick_def)

lemma requested_generic:
  "(A \<and> x = Some a \<or> A \<and> x = Some b \<or> B \<and> x = Some c \<or> C \<and> x = Some d \<or>
    C \<and> x = Some e) =
   (\<exists>k. x = Some k \<and> ((k = a \<or> k = b) \<and> A \<or> k = c \<and> B \<or> (k = d \<or> k = e) \<and> C))"
  by blast

lemma go_kinds_match:
  "list_ex (\<lambda>r. matches r t p) (go_declKindsRaw_any ks) =
   (\<exists>k. kind_at t p = Some k \<and> go_requested ks k)"
proof -
  have "list_ex (\<lambda>r. matches r t p) (go_declKindsRaw_any ks) =
    (includesK ks KFunction \<and> kind_at t p = Some ''function_declaration'' \<or>
     includesK ks KFunction \<and> kind_at t p = Some ''method_declaration'' \<or>
     includesK ks KType \<and> kind_at t p = Some ''type_declaration'' \<or>
     includesK ks KVariable \<and> kind_at t p = Some ''var_declaration'' \<or>
     includesK ks KVariable \<and> kind_at t p = Some ''const_declaration'')"
    by (simp only: go_declKindsRaw_any_def pick_ex matches_kindRule filterBoolean.simps
        list_ex_Nil_iff list_ex_Cons_iff simp_thms)
  also have "\<dots> = (\<exists>k. kind_at t p = Some k \<and> go_requested ks k)"
    unfolding go_requested_def includesK_def by (rule requested_generic)
  finally show ?thesis .
qed

lemma go_matcher_all:
  "matches (go_getCommentableNodesMatcher ks wc False) t p =
     ((\<exists>k. kind_at t p = Some k \<and> go_requested ks k) \<and>
      parent_kind t p = Some ''source_file'' \<and> go_isDocumented t p = wc)"
  by (cases wc)
    (auto simp add: go_getCommentableNodesMatcher_def go_isDocumented_def spread_three Let_def
      inside_kindRule go_kinds_match go_withDocComment_def kind_at_def
      simp del: field_matches.simps(7,8,9))

lemma go_matcher_exported:
  "matches (go_getCommentableNodesMatcher ks wc True) t p =
     (matches (go_getCommentableNodesMatcher ks wc False) t p \<and> go_capitalIdentifierChild t p)"
  by (cases wc)
    (auto simp add: go_getCommentableNodesMatcher_def go_capitalIdentifierChild_def spread_three Let_def
      go_withDocComment_def simp del: field_matches.simps(7,8,9))

lemma go_capitalIdentifierChild_iff:
  "go_capitalIdentifierChild t p =
   (\<exists>n c. node_at t p = Some n \<and> c \<in> set (nchildren n) \<and> nkind c = ''identifier'' \<and>
      capital (ntext c))"
proof -
  have "go_capitalIdentifierChild t p =
    (\<exists>n i. node_at t p = Some n \<and> i < length (nchildren n) \<and>
       nkind (nchildren n ! i) = ''identifier'' \<and> capital (ntext (nchildren n ! i)))"
    by (auto simp add: go_capitalIdentifierChild_def go_capitalIdentifier_def has_cands_def child_paths_ex kind_at_def
        text_at_def regex_capital node_at_child capital_def)
  also have "\<dots> = (\<exists>n c. node_at t p = Some n \<and> c \<in> set (nchildren n) \<and>
      nkind c = ''identifier'' \<and> capital (ntext c))"
    by (metis in_set_conv_nth)
  finally show ?thesis .
qed

lemma go_flag_needs_identifier_child:
  assumes "node_at t p = Some n" and "\<forall>c\<in>set (nchildren n). nkind c \<noteq> ''identifier''"
  shows "\<not> matches (go_getCommentableNodesMatcher ks wc True) t p"
  using assms by (auto simp add: go_matcher_exported go_capitalIdentifierChild_iff)

text \<open>
  Claim C6 at exported methods, types, constants and variables. The sample holds five
  exported declarations, one of each kind the Go adapter lists, shaped as the Go grammar
  shapes them. With \<^verbatim>\<open>exportsOnly=false\<close> all five are matched. With \<^verbatim>\<open>exportsOnly=true\<close>
  only the function is matched: the rule asks for a direct child of kind \<^verbatim>\<open>identifier\<close>
  that begins with a capital letter, and the name of a method is a \<^verbatim>\<open>field_identifier\<close>,
  the name of a type a \<^verbatim>\<open>type_identifier\<close> under \<^verbatim>\<open>type_spec\<close>, and the names of
  constants and variables lie under \<^verbatim>\<open>const_spec\<close> and \<^verbatim>\<open>var_spec\<close>
  (\<open>go_flag_needs_identifier_child\<close>). So exported declarations of four of the five
  requested kinds are dropped, although the method's documentation says that the flag
  limits matching to names starting with a capital letter.
\<close>

theorem go_exportsOnly_drops_exported:
  "matches (go_getCommentableNodesMatcher [KFunction, KType, KVariable] False False)
     go_exports_sample [0] \<and>
   matches (go_getCommentableNodesMatcher [KFunction, KType, KVariable] False False)
     go_exports_sample [1] \<and>
   matches (go_getCommentableNodesMatcher [KFunction, KType, KVariable] False False)
     go_exports_sample [2] \<and>
   matches (go_getCommentableNodesMatcher [KFunction, KType, KVariable] False False)
     go_exports_sample [3] \<and>
   matches (go_getCommentableNodesMatcher [KFunction, KType, KVariable] False False)
     go_exports_sample [4] \<and>
   matches (go_getCommentableNodesMatcher [KFunction, KType, KVariable] False True)
     go_exports_sample [0] \<and>
   \<not> matches (go_getCommentableNodesMatcher [KFunction, KType, KVariable] False True)
     go_exports_sample [1] \<and>
   \<not> matches (go_getCommentableNodesMatcher [KFunction, KType, KVariable] False True)
     go_exports_sample [2] \<and>
   \<not> matches (go_getCommentableNodesMatcher [KFunction, KType, KVariable] False True)
     go_exports_sample [3] \<and>
   \<not> matches (go_getCommentableNodesMatcher [KFunction, KType, KVariable] False True)
     go_exports_sample [4]"
  by code_simp

section \<open>Comment spans of the Go and C# adapters\<close>

lemma go_collect_run:
  "\<exists>k\<le>i. go_collect t (prev (i # ps)) acc = map (\<lambda>j. j # ps) [k..<i] @ acc \<and>
     (\<forall>j. k \<le> j \<and> j < i \<longrightarrow> go_isComment t (j # ps)) \<and>
     (k = 0 \<or> \<not> go_isComment t ((k - 1) # ps))"
proof (induction i arbitrary: acc)
  case 0
  show ?case by simp
next
  case (Suc i)
  show ?case
  proof (cases "go_isComment t (i # ps)")
    case False
    then have "go_collect t (prev (Suc i # ps)) acc = map (\<lambda>j. j # ps) [Suc i..<Suc i] @ acc \<and>
        (\<forall>j. Suc i \<le> j \<and> j < Suc i \<longrightarrow> go_isComment t (j # ps)) \<and>
        (Suc i = 0 \<or> \<not> go_isComment t ((Suc i - 1) # ps))"
      by auto
    then show ?thesis by blast
  next
    case True
    from Suc.IH [of "(i # ps) # acc"] obtain k where k: "k \<le> i"
      "go_collect t (prev (i # ps)) ((i # ps) # acc) = map (\<lambda>j. j # ps) [k..<i] @ (i # ps) # acc"
      "\<forall>j. k \<le> j \<and> j < i \<longrightarrow> go_isComment t (j # ps)"
      "k = 0 \<or> \<not> go_isComment t ((k - 1) # ps)"
      by blast
    from True k(2) have "go_collect t (prev (Suc i # ps)) acc = map (\<lambda>j. j # ps) [k..<Suc i] @ acc"
      using k(1) by simp
    moreover from True k(3) have "\<forall>j. k \<le> j \<and> j < Suc i \<longrightarrow> go_isComment t (j # ps)"
      by (auto simp: less_Suc_eq)
    ultimately show ?thesis using k(1,4) by (intro exI [of _ k]) simp
  qed
qed

lemma go_documented_prev:
  "go_isDocumented t p = (node_at t p \<noteq> None \<and> (\<exists>q. prev p = Some q \<and> go_isComment t q))"
  by (cases "prev p")
    (auto simp add: go_isDocumented_def go_withDocComment_def follows_cands_neighbor go_isComment_def
      kind_at_def text_at_def regex_slashes split: option.splits)

lemma go_matcher_documented:
  "matches (go_getCommentableNodesMatcher ks True eo) t p \<Longrightarrow> go_isDocumented t p"
  by (cases eo) (simp_all add: go_matcher_exported go_matcher_all)

lemma go_span_of_documented:
  assumes "matches (go_getCommentableNodesMatcher ks True eo) t p"
  shows "\<exists>cs. go_getCommentNodes t p = Some cs \<and> cs \<noteq> [] \<and> prev p = Some (last cs) \<and>
    (\<exists>i ps k. p = i # ps \<and> k < i \<and> cs = map (\<lambda>j. j # ps) [k..<i])"
proof -
  from assms have "go_isDocumented t p"
    by (rule go_matcher_documented)
  then obtain q where q: "prev p = Some q" "go_isComment t q"
    by (auto simp: go_documented_prev)
  then have "\<exists>i ps. p = Suc i # ps \<and> q = i # ps"
    by (cases p) (auto split: if_splits simp: gr0_conv_Suc)
  then obtain i ps where p: "p = Suc i # ps" "q = i # ps"
    by blast
  from go_collect_run [of "Suc i" t ps "[]"] obtain k where k: "k \<le> Suc i"
    "go_collect t (prev (Suc i # ps)) [] = map (\<lambda>j. j # ps) [k..<Suc i]"
    "k = 0 \<or> \<not> go_isComment t ((k - 1) # ps)"
    by auto
  from k(1,3) q(2) p(2) have lt: "k < Suc i"
    by (cases "k = Suc i") auto
  then have ne: "map (\<lambda>j. j # ps) [k..<Suc i] \<noteq> []"
    by simp
  from lt have la: "last (map (\<lambda>j. j # ps) [k..<Suc i]) = i # ps"
    by (simp add: less_Suc_eq_le)
  from k(2) ne have "go_getCommentNodes t p = Some (map (\<lambda>j. j # ps) [k..<Suc i])"
    unfolding go_getCommentNodes_def Let_def p(1) by simp
  with ne la q(1) p lt show ?thesis
    by (intro exI [of _ "map (\<lambda>j. j # ps) [k..<Suc i]"]) auto
qed

lemma csharp_collect_run:
  "\<exists>k\<le>i. csharp_collect t (i # ps) acc = acc @ rev (map (\<lambda>j. j # ps) [k..<i]) \<and>
     (\<forall>j. k \<le> j \<and> j < i \<longrightarrow> kind_at t (j # ps) = Some ''comment'') \<and>
     (k = 0 \<or> kind_at t ((k - 1) # ps) \<noteq> Some ''comment'')"
proof (induction i arbitrary: acc)
  case 0
  show ?case by (simp add: csharp_collect.simps)
next
  case (Suc i)
  show ?case
  proof (cases "kind_at t (i # ps) = Some ''comment''")
    case False
    then have "csharp_collect t (Suc i # ps) acc = acc @ rev (map (\<lambda>j. j # ps) [Suc i..<Suc i]) \<and>
        (\<forall>j. Suc i \<le> j \<and> j < Suc i \<longrightarrow> kind_at t (j # ps) = Some ''comment'') \<and>
        (Suc i = 0 \<or> kind_at t ((Suc i - 1) # ps) \<noteq> Some ''comment'')"
      by (auto simp: csharp_collect.simps [of t "Suc i # ps"])
    then show ?thesis by blast
  next
    case True
    from Suc.IH [of "acc @ [i # ps]"] obtain k where k: "k \<le> i"
      "csharp_collect t (i # ps) (acc @ [i # ps]) =
         (acc @ [i # ps]) @ rev (map (\<lambda>j. j # ps) [k..<i])"
      "\<forall>j. k \<le> j \<and> j < i \<longrightarrow> kind_at t (j # ps) = Some ''comment''"
      "k = 0 \<or> kind_at t ((k - 1) # ps) \<noteq> Some ''comment''"
      by blast
    from True k(2) have "csharp_collect t (Suc i # ps) acc = acc @ rev (map (\<lambda>j. j # ps) [k..<Suc i])"
      using k(1) by (simp add: csharp_collect.simps [of t "Suc i # ps"])
    moreover from True k(3) have "\<forall>j. k \<le> j \<and> j < Suc i \<longrightarrow> kind_at t (j # ps) = Some ''comment''"
      by (auto simp: less_Suc_eq)
    ultimately show ?thesis using k(1,4) by (intro exI [of _ k]) simp
  qed
qed

text \<open>
  Claim C3 at the C# adapter. The method of \<open>csharp_sample\<close> is matched with
  \<^verbatim>\<open>withComments=true\<close>; its span is not empty, but the last node of the span is the
  comment farthest from the method, not its previous sibling. The Go adapter, on the
  same shape of input, ends its span at the previous sibling.
\<close>

theorem csharp_span_last_not_predecessor:
  "matches (csharp_getCommentableNodesMatcher [KFunction] True False) csharp_sample [2, 1, 0] \<and>
   prev [2, 1, 0] = Some [1, 1, 0] \<and>
   last (csharp_getCommentNodes csharp_sample [2, 1, 0]) = [0, 1, 0] \<and>
   matches (go_getCommentableNodesMatcher [KFunction] True False) go_sample2 [2] \<and>
   prev [2] = Some [1] \<and>
   map_option last (go_getCommentNodes go_sample2 [2]) = Some [1]"
  by code_simp

text \<open>
  Claim C7 at the C# adapter. For a method preceded by two comments the C# adapter
  returns the later comment first and the earlier one second, so the list is not in
  source order; the Go adapter returns the earlier comment first.
\<close>

theorem csharp_span_reversed:
  "csharp_getCommentNodes csharp_sample [2, 1, 0] = [[1, 1, 0], [0, 1, 0]] \<and>
   go_getCommentNodes go_sample2 [2] = Some [[0], [1]]"
  by code_simp

section \<open>The formatters\<close>

lemma go_unfenced:
  "unfence d ''/'' = d \<Longrightarrow> go_getCommentText unfence d = go_getCommentText unfenced d"
  by (simp add: go_getCommentText_def unfenced_def)

lemma csharp_unfenced:
  "unfence d ''*'' = d \<Longrightarrow> csharp_getCommentText unfence d = csharp_getCommentText unfenced d"
  by (simp add: csharp_getCommentText_def unfenced_def)

lemma ruby_unfenced:
  "unfence d ''#'' = d \<Longrightarrow> ruby_getCommentText unfence d = ruby_getCommentText unfenced d"
  by (simp add: ruby_getCommentText_def unfenced_def)

text \<open>The Go and Ruby formatters return a text that passes their test as it is.\<close>

lemma go_formatter_keeps_canonical:
  "prefix ''//'' (trim (unfence c ''/'')) \<Longrightarrow> go_getCommentText unfence c = unfence c ''/''"
  by (simp add: go_getCommentText_def)

lemma ruby_formatter_keeps_canonical:
  "ruby_isComment (trim (unfence c ''#'')) \<Longrightarrow> ruby_getCommentText unfence c = unfence c ''#''"
  by (simp add: ruby_getCommentText_def)

text \<open>Otherwise the Go formatter prefixes every non-empty trimmed line and joins with line feeds.\<close>

lemma go_formatter_wraps_lines:
  "\<not> prefix ''//'' (trim (unfence d ''/'')) \<Longrightarrow>
   go_getCommentText unfence d =
     join [NL] (map (\<lambda>line. ''// '' @ line)
       (filter (\<lambda>line. line \<noteq> []) (map trim (split_lines (unfence d ''/'')))))"
  by (simp only: go_getCommentText_def Let_def if_not_P if_False)

text \<open>
  White space beyond ASCII is trimmed as well: a byte order mark and a line separator
  around a text, and a no-break space before a Go comment, which is then kept as it is.
\<close>

lemma trim_wide_spaces:
  "trim ([CHR 0xEF, CHR 0xBB, CHR 0xBF] @ ''  a b '' @ [CHR 0xE2, CHR 0x80, CHR 0xA8, NL]) = ''a b''"
  by code_simp

lemma go_keeps_comment_after_nbsp:
  "go_getCommentText unfenced ([CHR 0xC2, CHR 0xA0] @ ''// x'') = [CHR 0xC2, CHR 0xA0] @ ''// x''"
  by code_simp

lemma csharp_on_doc_line:
  "csharp_getCommentText unfenced csharp_doc_line = ''/// /// Adds two numbers.''"
  by code_simp

lemma doc_line_changed: "''/// /// Adds two numbers.'' \<noteq> csharp_doc_line"
  by code_simp

text \<open>
  Claim C2 at the C# adapter. A text that already is a \<^verbatim>\<open>///\<close> documentation line, and
  that \<^verbatim>\<open>unfence\<close> leaves alone, is not returned unchanged: the C# formatter has no test
  for such a text and prefixes it once more.
\<close>

theorem csharp_formatter_rewraps_canonical:
  assumes "unfence csharp_doc_line ''*'' = csharp_doc_line"
  shows "csharp_getCommentText unfence csharp_doc_line = ''/// /// Adds two numbers.'' \<and>
    csharp_getCommentText unfence csharp_doc_line \<noteq> csharp_doc_line"
proof -
  from assms have "csharp_getCommentText unfence csharp_doc_line = ''/// /// Adds two numbers.''"
    by (simp only: csharp_unfenced csharp_on_doc_line)
  then show ?thesis
    by (simp only: doc_line_changed simp_thms)
qed

theorem csharp_formatter_rewraps_canonical_witness:
  "unfenced csharp_doc_line ''*'' = csharp_doc_line \<and>
   csharp_getCommentText unfenced csharp_doc_line = ''/// /// Adds two numbers.'' \<and>
   csharp_getCommentText unfenced csharp_doc_line \<noteq> csharp_doc_line"
proof -
  have u: "unfenced csharp_doc_line ''*'' = csharp_doc_line"
    by (simp add: unfenced_def)
  note r = csharp_formatter_rewraps_canonical [of unfenced, OF u]
  from u r [THEN conjunct1] r [THEN conjunct2] show ?thesis
    by (intro conjI)
qed

lemma ruby_on_two_lines:
  "ruby_getCommentText unfenced two_lines = ''# first'' @ [NL] @ ''second''"
  by code_simp

lemma csharp_on_two_lines:
  "csharp_getCommentText unfenced two_lines = ''/// first/// second''"
  by code_simp

lemma go_on_two_lines:
  "go_getCommentText unfenced two_lines = ''// first'' @ [NL] @ ''// second''"
  by code_simp

text \<open>
  Claim C8 at the Ruby and C# adapters. For the two-line text \<open>two_lines\<close>, which is in
  no canonical form, the Ruby formatter returns one \<^verbatim>\<open>#\<close> line that still contains the
  line feed, so the second line carries no comment token; the C# formatter returns both
  lines on a single line, separated by the token instead of a line feed. The Go
  formatter returns the two prefixed lines joined by a line feed.
\<close>

theorem line_formatters_on_two_lines:
  assumes "unfence two_lines ''#'' = two_lines"
    and "unfence two_lines ''*'' = two_lines"
    and "unfence two_lines ''/'' = two_lines"
  shows "ruby_getCommentText unfence two_lines = ''# first'' @ [NL] @ ''second'' \<and>
    csharp_getCommentText unfence two_lines = ''/// first/// second'' \<and>
    go_getCommentText unfence two_lines = ''// first'' @ [NL] @ ''// second''"
proof (intro conjI)
  from assms(1) show "ruby_getCommentText unfence two_lines = ''# first'' @ [NL] @ ''second''"
    by (simp only: ruby_unfenced ruby_on_two_lines)
  from assms(2) show "csharp_getCommentText unfence two_lines = ''/// first/// second''"
    by (simp only: csharp_unfenced csharp_on_two_lines)
  from assms(3) show "go_getCommentText unfence two_lines = ''// first'' @ [NL] @ ''// second''"
    by (simp only: go_unfenced go_on_two_lines)
qed

theorem line_formatters_on_two_lines_witness:
  "unfenced two_lines ''#'' = two_lines \<and>
   unfenced two_lines ''*'' = two_lines \<and>
   unfenced two_lines ''/'' = two_lines \<and>
   ruby_getCommentText unfenced two_lines = ''# first'' @ [NL] @ ''second'' \<and>
   csharp_getCommentText unfenced two_lines = ''/// first/// second'' \<and>
   go_getCommentText unfenced two_lines = ''// first'' @ [NL] @ ''// second''"
proof -
  have u: "unfenced two_lines ''#'' = two_lines" "unfenced two_lines ''*'' = two_lines"
    "unfenced two_lines ''/'' = two_lines"
    by (simp_all add: unfenced_def)
  note r = line_formatters_on_two_lines [of unfenced, OF u]
  from u r [THEN conjunct1] r [THEN conjunct2, THEN conjunct1] r [THEN conjunct2, THEN conjunct2]
  show ?thesis
    by (intro conjI)
qed

section \<open>The edit budget\<close>

lemma process_editsMax: "editsMax (fst (process format b c)) = editsMax b"
  by (simp add: process_def split: oracle_response.splits)

lemma process_bound:
  "editsUsed b \<le> editsMax b \<Longrightarrow> editsUsed (fst (process format b c)) \<le> editsMax b"
  by (simp add: process_def split: oracle_response.splits)

lemma processAll_Cons:
  "processAll format b (c # cs) =
   (fst (processAll format (fst (process format b c)) cs),
    snd (process format b c) # snd (processAll format (fst (process format b c)) cs))"
  by (simp split: prod.splits)

lemma processAll_bound:
  "editsUsed b \<le> editsMax b \<Longrightarrow> editsUsed (fst (processAll format b cs)) \<le> editsMax b"
proof (induction cs arbitrary: b)
  case Nil
  then show ?case by simp
next
  case (Cons c cs)
  have "editsUsed (fst (process format b c)) \<le> editsMax (fst (process format b c))"
    using Cons.prems by (simp add: process_bound process_editsMax)
  from Cons.IH [OF this] show ?case
    by (simp add: process_editsMax processAll_Cons del: processAll.simps(2))
qed

lemma process_charged:
  "editsUsed (fst (process format b c)) =
   editsUsed b + (if charged (snd (process format b c)) then 1 else 0)"
  by (simp add: process_def charged_def split: oracle_response.splits)

lemma processAll_charged:
  "editsUsed (fst (processAll format b cs)) =
   editsUsed b + length (filter charged (snd (processAll format b cs)))"
proof (induction cs arbitrary: b)
  case Nil
  then show ?case by simp
next
  case (Cons c cs)
  show ?case
    using Cons.IH [of "fst (process format b c)"] process_charged [of format b c]
    by (simp add: processAll_Cons del: processAll.simps(2))
qed

lemma process_noChange:
  "response c = NoChange \<Longrightarrow>
   fst (process format b c) = b \<and>
   \<not> charged (snd (process format b c)) \<and>
   (editsUsed b < editsMax b \<longrightarrow> kind (snd (process format b c)) = Skip_NoChange)"
  by (simp add: process_def charged_def)

text \<open>
  Claim C1. After any run the edits-used counter does not exceed the configured maximum;
  the counter equals the number of \<open>Insert\<close> and \<open>Update\<close> records; and a candidate for
  which the oracle answers with the "no change" sentinel leaves the budget as it was, is
  never recorded as an edit, and is recorded as \<open>Skip-NoChange\<close> whenever the budget
  still allowed a request.
\<close>

theorem edit_budget_respected:
  "editsUsed (fst (run format maxEdits maxContext cs)) \<le> maxEdits \<and>
   editsUsed (fst (run format maxEdits maxContext cs)) =
     length (filter charged (snd (run format maxEdits maxContext cs))) \<and>
   (response c = NoChange \<longrightarrow>
      fst (process format b c) = b \<and>
      \<not> charged (snd (process format b c)) \<and>
      (editsUsed b < editsMax b \<longrightarrow> kind (snd (process format b c)) = Skip_NoChange))"
proof (intro conjI impI)
  show "editsUsed (fst (run format maxEdits maxContext cs)) \<le> maxEdits"
    using processAll_bound [of "\<lparr>editsUsed = 0, editsMax = maxEdits, contextTokensMax = maxContext\<rparr>"
        format cs]
    by (simp add: run_def)
  show "editsUsed (fst (run format maxEdits maxContext cs)) =
      length (filter charged (snd (run format maxEdits maxContext cs)))"
    by (simp add: run_def processAll_charged)
next
  assume n: "response c = NoChange"
  from process_noChange [OF n, of format b]
  show "fst (process format b c) = b" and "\<not> charged (snd (process format b c))"
    by simp_all
next
  assume n: "response c = NoChange" and l: "editsUsed b < editsMax b"
  from process_noChange [OF n, of format b] l
  show "kind (snd (process format b c)) = Skip_NoChange"
    by simp
qed

theorem edit_budget_respected_witness:
  "editsUsed (fst (run id 2 0 five_candidates)) \<le> 2 \<and>
   map kind (snd (run id 2 0 five_candidates)) =
     [Insert, Insert, Skip_Budget, Skip_Budget, Skip_Budget] \<and>
   response noChange_candidate = NoChange \<and>
   editsUsed open_budget < editsMax open_budget \<and>
   fst (process id open_budget noChange_candidate) = open_budget \<and>
   kind (snd (process id open_budget noChange_candidate)) = Skip_NoChange"
proof -
  note r = edit_budget_respected [of id 2 0 five_candidates noChange_candidate open_budget]
  have h1: "response noChange_candidate = NoChange"
    by (simp add: noChange_candidate_def)
  have h2: "editsUsed open_budget < editsMax open_budget"
    by (simp add: open_budget_def)
  have k: "map kind (snd (run id 2 0 five_candidates)) =
      [Insert, Insert, Skip_Budget, Skip_Budget, Skip_Budget]"
    by code_simp
  note n = r [THEN conjunct2, THEN conjunct2, THEN mp, OF h1]
  from r [THEN conjunct1] k h1 h2 n [THEN conjunct1]
    n [THEN conjunct2, THEN conjunct2, THEN mp, OF h2]
  show ?thesis
    by (intro conjI)
qed

end
